theory Spec2Isabelle
  imports Main
begin

section \<open>Values exchanged with the plugin framework\<close>

text \<open>
  The framework's \<^verbatim>\<open>types.String\<close> and \<^verbatim>\<open>types.Int64\<close> are three-state values:
  null (the zero value of the Go type), unknown, or a known value. \<^verbatim>\<open>ValueString\<close> and
  \<^verbatim>\<open>ValueInt64\<close> read a known value and give the empty string, respectively 0, otherwise.
  Go's \<^verbatim>\<open>int\<close> and \<^verbatim>\<open>int64\<close> are both 64-bit on the supported platforms; the handlers do
  no arithmetic on them, so they are embedded as integers and the conversions
  \<^verbatim>\<open>int(...)\<close>, \<^verbatim>\<open>int64(...)\<close> are the identity.
\<close>

datatype types_String = StringNull | StringUnknown | StringValue string

datatype types_Int64 = Int64Null | Int64Unknown | Int64Value int

fun ValueString :: "types_String \<Rightarrow> string" where
  "ValueString StringNull = []"
| "ValueString StringUnknown = []"
| "ValueString (StringValue s) = s"

fun ValueInt64 :: "types_Int64 \<Rightarrow> int" where
  "ValueInt64 Int64Null = 0"
| "ValueInt64 Int64Unknown = 0"
| "ValueInt64 (Int64Value i) = i"

section \<open>The Go library functions the handlers call\<close>

subsection \<open>\<^verbatim>\<open>strconv.Itoa\<close> and \<^verbatim>\<open>strconv.Atoi\<close>\<close>

fun digits :: "nat \<Rightarrow> string" where
  "digits n = (if n < 10 then [''0123456789'' ! n]
               else digits (n div 10) @ [''0123456789'' ! (n mod 10)])"

declare digits.simps [simp del]

definition Itoa :: "int \<Rightarrow> string" where
  "Itoa i = (if i < 0 then CHR ''-'' # digits (nat (- i)) else digits (nat i))"

datatype NumError = ErrSyntax | ErrRange

definition isDigit :: "char \<Rightarrow> bool" where
  "isDigit c = (48 \<le> (of_char c :: nat) \<and> (of_char c :: nat) \<le> 57)"

definition maxUint64 :: nat where
  "maxUint64 = 2 ^ 64 - 1"

text \<open>
  The digit loop of \<^verbatim>\<open>strconv.ParseUint\<close> in base 10 with 64 bits: a byte that is not a
  decimal digit is a syntax error (value 0); an overflow is a range error, reported at the
  byte where it happens (value \<open>2^64 - 1\<close>).
\<close>

fun ParseUint_loop :: "nat \<Rightarrow> string \<Rightarrow> nat \<times> NumError option" where
  "ParseUint_loop n [] = (n, None)"
| "ParseUint_loop n (c # cs) =
     (if \<not> isDigit c then (0, Some ErrSyntax)
      else if n \<ge> maxUint64 div 10 + 1 then (maxUint64, Some ErrRange)
      else (let n1 = n * 10 + (of_char c - 48) in
            if n1 > maxUint64 then (maxUint64, Some ErrRange)
            else ParseUint_loop n1 cs))"

definition ParseUint :: "string \<Rightarrow> nat \<times> NumError option" where
  "ParseUint s = (if s = [] then (0, Some ErrSyntax) else ParseUint_loop 0 s)"

text \<open>
  \<^verbatim>\<open>strconv.Atoi\<close> returns a value and an error. Its result is that of
  \<^verbatim>\<open>ParseInt(s, 10, 0)\<close> (the fast path for short strings computes the same): an optional
  sign, then the digits; a syntax error gives 0, a value out of the 64-bit range gives the
  nearest bound together with a range error.
\<close>

definition Atoi :: "string \<Rightarrow> int \<times> NumError option" where
  "Atoi s =
     (if s = [] then (0, Some ErrSyntax)
      else
        (let neg = (hd s = CHR ''-'');
             s1 = (if hd s = CHR ''+'' \<or> hd s = CHR ''-'' then tl s else s);
             (un, err) = ParseUint s1
         in if err = Some ErrSyntax then (0, Some ErrSyntax)
            else if \<not> neg \<and> un \<ge> 2 ^ 63 then (2 ^ 63 - 1, Some ErrRange)
            else if neg \<and> un > 2 ^ 63 then (- (2 ^ 63), Some ErrRange)
            else (if neg then - int un else int un, None)))"

subsection \<open>\<^verbatim>\<open>strings.Split\<close> with a one-byte separator, slice indexing\<close>

fun Split_acc :: "char \<Rightarrow> string \<Rightarrow> string \<Rightarrow> string list" where
  "Split_acc sep acc [] = [rev acc]"
| "Split_acc sep acc (c # cs) =
     (if c = sep then rev acc # Split_acc sep [] cs else Split_acc sep (c # acc) cs)"

definition Split :: "string \<Rightarrow> char \<Rightarrow> string list" where
  "Split s sep = Split_acc sep [] s"

datatype panic = NilPointerDereference | IndexOutOfRange

definition index :: "'a list \<Rightarrow> nat \<Rightarrow> panic + 'a" where
  "index xs i = (if i < length xs then Inr (xs ! i) else Inl IndexOutOfRange)"

subsection \<open>\<^verbatim>\<open>url.Parse\<close>\<close>

text \<open>
  \<^verbatim>\<open>url.Parse\<close> is a parameter of the handlers that use it: a function from the raw URL to
  the parsed URL, of which the handlers read the path only. On a parse error Go returns a
  nil pointer, here \<open>None\<close>.
\<close>

record URL =
  Path :: string

section \<open>The remote API client\<close>

text \<open>
  The payload and response types are those of the client library; only the fields the
  handlers read or write are kept. A Go pointer is an \<open>option\<close>, nil being \<open>None\<close>.
  A Go \<^verbatim>\<open>error\<close> is its message, nil being \<open>None\<close>.
\<close>

record ResponseScheme =
  Bytes :: string

record ProjectPayloadScheme =
  Key :: string
  Name :: string
  Description :: string
  AvatarID :: int
  FieldConfigurationScheme :: int
  IssueTypeScheme :: int
  IssueTypeScreenScheme :: int
  LeadAccountID :: string
  ProjectTypeKey :: string
  URL :: string
  WorkflowScheme :: int

record NewProjectCreatedScheme =
  ID :: int

record ProjectUpdateScheme =
  Key :: string
  Name :: string
  Description :: string
  AvatarID :: int
  ProjectTypeKey :: string
  URL :: string

record AvatarURLScheme =
  One6X16 :: string

record UserScheme =
  AccountID :: string

record ProjectScheme =
  ID :: string
  Key :: string
  Name :: string
  Description :: string
  AvatarUrls :: "AvatarURLScheme option"
  Lead :: "UserScheme option"
  ProjectTypeKey :: string
  URL :: string

record IssueTypeSchemeScheme =
  ID :: string
  Name :: string

record IssueTypeSchemeProjectsScheme =
  IssueTypeScheme :: "IssueTypeSchemeScheme option"
  ProjectIds :: "string list"

record IssueTypeSchemeProjectPageScheme =
  Values :: "IssueTypeSchemeProjectsScheme option list"

record WorkflowStatusDetailScheme =
  Name :: string
  Description :: string
  StatusCategory :: string

record WorkflowSchemeScheme =
  Name :: string
  Description :: string

record ScreenParamsScheme =
  IDs :: "int list"

record ScreenScheme =
  Name :: string
  Description :: string

record ScreenSearchPageScheme =
  Values :: "ScreenScheme option list"

text \<open>
  The methods of the client that the handlers call. Within one handler invocation each
  method is called at most once, so a function of the arguments describes any remote
  system.
\<close>

record jiraClient =
  Project_Create :: "ProjectPayloadScheme \<Rightarrow>
    NewProjectCreatedScheme option \<times> ResponseScheme option \<times> string option"
  Project_Get :: "string \<Rightarrow> string list \<Rightarrow>
    ProjectScheme option \<times> ResponseScheme option \<times> string option"
  Project_Update :: "string \<Rightarrow> ProjectUpdateScheme \<Rightarrow>
    ProjectScheme option \<times> ResponseScheme option \<times> string option"
  Project_Delete :: "string \<Rightarrow> bool \<Rightarrow> ResponseScheme option \<times> string option"
  Issue_Type_Scheme_Projects :: "int list \<Rightarrow> int \<Rightarrow> int \<Rightarrow>
    IssueTypeSchemeProjectPageScheme option \<times> ResponseScheme option \<times> string option"
  Issue_Type_Scheme_Assign :: "string \<Rightarrow> string \<Rightarrow> ResponseScheme option \<times> string option"
  Workflow_Status_Gets :: "string list \<Rightarrow> string list \<Rightarrow>
    WorkflowStatusDetailScheme option list \<times> ResponseScheme option \<times> string option"
  Workflow_Scheme_Get :: "int \<Rightarrow> bool \<Rightarrow>
    WorkflowSchemeScheme option \<times> ResponseScheme option \<times> string option"
  Screen_Gets :: "ScreenParamsScheme \<Rightarrow> int \<Rightarrow> int \<Rightarrow>
    ScreenSearchPageScheme option \<times> ResponseScheme option \<times> string option"

datatype remote_call =
    Call_Project_Create ProjectPayloadScheme
  | Call_Project_Get string "string list"
  | Call_Project_Update string ProjectUpdateScheme
  | Call_Project_Delete string bool
  | Call_Issue_Type_Scheme_Projects "int list" int int
  | Call_Issue_Type_Scheme_Assign string string
  | Call_Workflow_Status_Gets "string list" "string list"
  | Call_Workflow_Scheme_Get int bool
  | Call_Screen_Gets ScreenParamsScheme int int

section \<open>What a handler invocation does\<close>

text \<open>
  A diagnostic is \<^verbatim>\<open>AddError(summary, detail)\<close> or
  \<^verbatim>\<open>AddAttributeError(path.Root(attribute), summary, detail)\<close>. A handler either panics or
  returns, with the diagnostics it added and the state it stored by \<^verbatim>\<open>resp.State.Set\<close>
  (\<open>None\<close> when it stored none). A run records, in order, the remote calls issued and the
  messages logged at level Info.
\<close>

datatype diagnostic =
    AddError string string
  | AddAttributeError string string string

datatype 'm outcome = Panicked panic | Returned "diagnostic list" "'m option"

record 'm run =
  calls :: "remote_call list"
  infos :: "string list"
  outcome :: "'m outcome"

definition newline :: string where
  "newline = [CHR 0x0A]"

section \<open>The project resource\<close>

text \<open>
  A handler starts by decoding the plan, the state or the configuration into its model
  record; the schema declares exactly the attributes of the record, so the decoding adds no
  diagnostic and the handlers below take the decoded records as arguments. Logging at level
  Debug formats values that are already at hand and is left out.
\<close>

record jiraProjectResourceModel =
  ID :: types_String
  Key :: types_String
  Name :: types_String
  Description :: types_String
  AvatarId :: types_Int64
  FieldConfigurationScheme :: types_Int64
  IssueTypeScheme :: types_Int64
  IssueTypeScreenScheme :: types_Int64
  WorkflowScheme :: types_Int64
  LeadAccountId :: types_String
  ProjectTypeKey :: types_String
  URL :: types_String

subsection \<open>Create\<close>

text \<open>
  The payload that Create fills in, field by field, from the plan; the fields of the
  library's struct that it does not assign keep their zero value.
\<close>

definition Create_payload :: "jiraProjectResourceModel \<Rightarrow> ProjectPayloadScheme" where
  "Create_payload plan =
     \<lparr>ProjectPayloadScheme.Key = ValueString (jiraProjectResourceModel.Key plan),
      ProjectPayloadScheme.Name = ValueString (jiraProjectResourceModel.Name plan),
      ProjectPayloadScheme.Description = ValueString (jiraProjectResourceModel.Description plan),
      ProjectPayloadScheme.AvatarID = ValueInt64 (AvatarId plan),
      ProjectPayloadScheme.FieldConfigurationScheme =
        ValueInt64 (jiraProjectResourceModel.FieldConfigurationScheme plan),
      ProjectPayloadScheme.IssueTypeScheme =
        ValueInt64 (jiraProjectResourceModel.IssueTypeScheme plan),
      ProjectPayloadScheme.IssueTypeScreenScheme =
        ValueInt64 (jiraProjectResourceModel.IssueTypeScreenScheme plan),
      ProjectPayloadScheme.LeadAccountID = ValueString (LeadAccountId plan),
      ProjectPayloadScheme.ProjectTypeKey = ValueString (jiraProjectResourceModel.ProjectTypeKey plan),
      ProjectPayloadScheme.URL = ValueString (jiraProjectResourceModel.URL plan),
      ProjectPayloadScheme.WorkflowScheme =
        ValueInt64 (jiraProjectResourceModel.WorkflowScheme plan)\<rparr>"

definition jiraProjectResource_Create ::
  "jiraClient \<Rightarrow> jiraProjectResourceModel \<Rightarrow> jiraProjectResourceModel run" where
  "jiraProjectResource_Create jira plan =
     (let projectPayload = Create_payload plan;
          issued = [Call_Project_Create projectPayload]
      in case Project_Create jira projectPayload of
           (returnedProject, res, Some err) \<Rightarrow>
             (let resBody = (case res of None \<Rightarrow> [] | Some r \<Rightarrow> Bytes r)
              in \<lparr>calls = issued, infos = [],
                  outcome = Returned
                    [AddError ''Client Error''
                       (''Unable to create project, got error: '' @ err @ newline @ resBody)]
                    None\<rparr>)
         | (returnedProject, res, None) \<Rightarrow>
             (case returnedProject of
                None \<Rightarrow> \<lparr>calls = issued, infos = [], outcome = Panicked NilPointerDereference\<rparr>
              | Some created \<Rightarrow>
                  \<lparr>calls = issued, infos = [],
                   outcome = Returned []
                     (Some (plan\<lparr>jiraProjectResourceModel.ID :=
                        StringValue (Itoa (NewProjectCreatedScheme.ID created))\<rparr>))\<rparr>))"

subsection \<open>Delete\<close>

definition jiraProjectResource_Delete ::
  "jiraClient \<Rightarrow> jiraProjectResourceModel \<Rightarrow> jiraProjectResourceModel run" where
  "jiraProjectResource_Delete jira state =
     (let issued = [Call_Project_Delete (ValueString (jiraProjectResourceModel.ID state)) False]
      in case Project_Delete jira (ValueString (jiraProjectResourceModel.ID state)) False of
           (res, Some err) \<Rightarrow>
             (case res of
                None \<Rightarrow> \<lparr>calls = issued, infos = [], outcome = Panicked NilPointerDereference\<rparr>
              | Some r \<Rightarrow>
                  \<lparr>calls = issued, infos = [],
                   outcome = Returned
                     [AddError ''Client Error''
                        (''Unable to delete project, got error: '' @ err @ newline @ Bytes r)]
                     None\<rparr>)
         | (res, None) \<Rightarrow> \<lparr>calls = issued, infos = [], outcome = Returned [] None\<rparr>)"

subsection \<open>Read\<close>

text \<open>
  The avatar id is read off the avatar URL: \<^verbatim>\<open>url.Parse\<close> of the 16x16 URL, then the path
  split at \<^verbatim>\<open>/\<close>, element 9 of the pieces, then \<^verbatim>\<open>Atoi\<close> with its error dropped. A nil
  \<^verbatim>\<open>AvatarUrls\<close>, a URL that does not parse and a path with fewer than ten pieces panic.
\<close>

definition avatarID_of ::
  "(string \<Rightarrow> URL option) \<Rightarrow> AvatarURLScheme option \<Rightarrow> panic + int" where
  "avatarID_of url_Parse avatarUrls =
     (case avatarUrls of
        None \<Rightarrow> Inl NilPointerDereference
      | Some urls \<Rightarrow>
          (case url_Parse (One6X16 urls) of
             None \<Rightarrow> Inl NilPointerDereference
           | Some avatarUrl \<Rightarrow>
               (case index (Split (Path avatarUrl) (CHR ''/'')) 9 of
                  Inl p \<Rightarrow> Inl p
                | Inr piece \<Rightarrow> Inr (fst (Atoi piece)))))"

text \<open>The fields of the state that Read takes from the fetched project.\<close>

definition Read_fields ::
  "(string \<Rightarrow> URL option) \<Rightarrow> ProjectScheme \<Rightarrow> jiraProjectResourceModel \<Rightarrow>
   panic + jiraProjectResourceModel" where
  "Read_fields url_Parse project state =
     (case avatarID_of url_Parse (AvatarUrls project) of
        Inl p \<Rightarrow> Inl p
      | Inr avatarID \<Rightarrow>
          (case Lead project of
             None \<Rightarrow> Inl NilPointerDereference
           | Some lead \<Rightarrow>
               Inr (state\<lparr>jiraProjectResourceModel.ID := StringValue (ProjectScheme.ID project),
                          jiraProjectResourceModel.Key := StringValue (ProjectScheme.Key project),
                          jiraProjectResourceModel.Name := StringValue (ProjectScheme.Name project),
                          jiraProjectResourceModel.Description :=
                            StringValue (ProjectScheme.Description project),
                          AvatarId := Int64Value avatarID,
                          LeadAccountId := StringValue (AccountID lead),
                          jiraProjectResourceModel.ProjectTypeKey :=
                            StringValue (ProjectScheme.ProjectTypeKey project),
                          jiraProjectResourceModel.URL :=
                            StringValue (ProjectScheme.URL project)\<rparr>)))"

text \<open>
  The inner loop \<^verbatim>\<open>for issueTypeSchemeProjectId := range issueTypeScheme.ProjectIds\<close> has one
  iteration variable, which in Go ranges over the indices of the slice: \<open>i\<close> below is the
  index of the element reached. The first index equal to \<open>projectIDInt\<close> sets the field and
  leaves the loop.
\<close>

fun range_ProjectIds ::
  "nat \<Rightarrow> string list \<Rightarrow> int \<Rightarrow> IssueTypeSchemeScheme \<Rightarrow> jiraProjectResourceModel \<Rightarrow>
   jiraProjectResourceModel" where
  "range_ProjectIds i [] projectIDInt scheme state = state"
| "range_ProjectIds i (projectId # rest) projectIDInt scheme state =
     (if int i = projectIDInt
      then state\<lparr>jiraProjectResourceModel.IssueTypeScheme :=
             Int64Value (fst (Atoi (IssueTypeSchemeScheme.ID scheme)))\<rparr>
      else range_ProjectIds (Suc i) rest projectIDInt scheme state)"

text \<open>
  The outer loop over the returned associations logs the scheme's name at level Info, then
  runs the inner loop. It returns the messages logged and the state, or the panic of a nil
  association or nil scheme.
\<close>

fun range_Values ::
  "IssueTypeSchemeProjectsScheme option list \<Rightarrow> int \<Rightarrow> jiraProjectResourceModel \<Rightarrow>
   string list \<times> (panic + jiraProjectResourceModel)" where
  "range_Values [] projectIDInt state = ([], Inr state)"
| "range_Values (v # vs) projectIDInt state =
     (case v of
        None \<Rightarrow> ([], Inl NilPointerDereference)
      | Some issueTypeScheme \<Rightarrow>
          (case IssueTypeSchemeProjectsScheme.IssueTypeScheme issueTypeScheme of
             None \<Rightarrow> ([], Inl NilPointerDereference)
           | Some scheme \<Rightarrow>
               (let (logged, r) =
                      range_Values vs projectIDInt
                        (range_ProjectIds 0 (ProjectIds issueTypeScheme) projectIDInt scheme state)
                in (IssueTypeSchemeScheme.Name scheme # logged, r))))"

definition jiraProjectResource_Read ::
  "jiraClient \<Rightarrow> (string \<Rightarrow> URL option) \<Rightarrow> jiraProjectResourceModel \<Rightarrow>
   jiraProjectResourceModel run" where
  "jiraProjectResource_Read jira url_Parse state =
     (let projectID = ValueString (jiraProjectResourceModel.ID state);
          issued = [Call_Project_Get projectID []]
      in case Project_Get jira projectID [] of
           (project, res, Some err) \<Rightarrow>
             (case res of
                None \<Rightarrow> \<lparr>calls = issued, infos = [], outcome = Panicked NilPointerDereference\<rparr>
              | Some r \<Rightarrow>
                  \<lparr>calls = issued, infos = [],
                   outcome = Returned
                     [AddError ''Client Error''
                        (''Unable to get project, got error: '' @ err @ newline @ Bytes r)]
                     None\<rparr>)
         | (project, res, None) \<Rightarrow>
             (case project of
                None \<Rightarrow> \<lparr>calls = issued, infos = [], outcome = Panicked NilPointerDereference\<rparr>
              | Some fetched \<Rightarrow>
                  (case Read_fields url_Parse fetched state of
                     Inl p \<Rightarrow> \<lparr>calls = issued, infos = [], outcome = Panicked p\<rparr>
                   | Inr state1 \<Rightarrow>
                       (let projectIDInt = fst (Atoi projectID);
                            issued2 = issued @ [Call_Issue_Type_Scheme_Projects [projectIDInt] 0 1]
                        in case Issue_Type_Scheme_Projects jira [projectIDInt] 0 1 of
                             (issueTypesSchemes, res2, Some err2) \<Rightarrow>
                               (case res2 of
                                  None \<Rightarrow>
                                    \<lparr>calls = issued2, infos = [],
                                     outcome = Panicked NilPointerDereference\<rparr>
                                | Some r2 \<Rightarrow>
                                    \<lparr>calls = issued2, infos = [],
                                     outcome = Returned
                                       [AddError ''Client Error''
                                          (''Unable to get issue type schemes for project, got error: ''
                                             @ err2 @ newline @ Bytes r2)]
                                       None\<rparr>)
                           | (issueTypesSchemes, res2, None) \<Rightarrow>
                               (case issueTypesSchemes of
                                  None \<Rightarrow>
                                    \<lparr>calls = issued2, infos = [],
                                     outcome = Panicked NilPointerDereference\<rparr>
                                | Some page \<Rightarrow>
                                    (case range_Values
                                            (IssueTypeSchemeProjectPageScheme.Values page)
                                            projectIDInt state1 of
                                       (logged, Inl p) \<Rightarrow>
                                         \<lparr>calls = issued2, infos = logged, outcome = Panicked p\<rparr>
                                     | (logged, Inr state2) \<Rightarrow>
                                         \<lparr>calls = issued2, infos = logged,
                                          outcome = Returned [] (Some state2)\<rparr>))))))"

subsection \<open>Update\<close>

text \<open>The rendering \<^verbatim>\<open>String()\<close> of a \<^verbatim>\<open>types.Int64\<close>.\<close>

fun Int64_String :: "types_Int64 \<Rightarrow> string" where
  "Int64_String Int64Unknown = ''<unknown>''"
| "Int64_String Int64Null = ''<null>''"
| "Int64_String (Int64Value i) = Itoa i"

text \<open>The payload that Update fills in from the plan.\<close>

definition Update_payload :: "jiraProjectResourceModel \<Rightarrow> ProjectUpdateScheme" where
  "Update_payload plan =
     \<lparr>ProjectUpdateScheme.Key = ValueString (jiraProjectResourceModel.Key plan),
      ProjectUpdateScheme.Name = ValueString (jiraProjectResourceModel.Name plan),
      ProjectUpdateScheme.Description = ValueString (jiraProjectResourceModel.Description plan),
      ProjectUpdateScheme.AvatarID = ValueInt64 (AvatarId plan),
      ProjectUpdateScheme.ProjectTypeKey = ValueString (jiraProjectResourceModel.ProjectTypeKey plan),
      ProjectUpdateScheme.URL = ValueString (jiraProjectResourceModel.URL plan)\<rparr>"

text \<open>
  The record Update stores: a struct literal, so the fields it does not name have the zero
  value of their type, which is null.
\<close>

definition Update_result ::
  "ProjectScheme \<Rightarrow> int \<Rightarrow> UserScheme \<Rightarrow> jiraProjectResourceModel \<Rightarrow> jiraProjectResourceModel"
  where
  "Update_result returnedProject avatarID lead plan =
     \<lparr>jiraProjectResourceModel.ID = StringValue (ProjectScheme.ID returnedProject),
      jiraProjectResourceModel.Key = StringValue (ProjectScheme.Key returnedProject),
      jiraProjectResourceModel.Name = StringValue (ProjectScheme.Name returnedProject),
      jiraProjectResourceModel.Description =
        StringValue (ProjectScheme.Description returnedProject),
      AvatarId = Int64Value avatarID,
      jiraProjectResourceModel.FieldConfigurationScheme = Int64Null,
      jiraProjectResourceModel.IssueTypeScheme =
        Int64Value (ValueInt64 (jiraProjectResourceModel.IssueTypeScheme plan)),
      jiraProjectResourceModel.IssueTypeScreenScheme = Int64Null,
      jiraProjectResourceModel.WorkflowScheme = Int64Null,
      LeadAccountId = StringValue (AccountID lead),
      jiraProjectResourceModel.ProjectTypeKey =
        StringValue (ProjectScheme.ProjectTypeKey returnedProject),
      jiraProjectResourceModel.URL = StringValue (ProjectScheme.URL returnedProject)\<rparr>"

definition jiraProjectResource_Update ::
  "jiraClient \<Rightarrow> (string \<Rightarrow> URL option) \<Rightarrow> jiraProjectResourceModel \<Rightarrow>
   jiraProjectResourceModel \<Rightarrow> jiraProjectResourceModel run" where
  "jiraProjectResource_Update jira url_Parse plan state =
     (let projectID = ValueString (jiraProjectResourceModel.ID state);
          projectPayload = Update_payload plan;
          issued = [Call_Project_Update projectID projectPayload]
      in case Project_Update jira projectID projectPayload of
           (returnedProject, res, Some err) \<Rightarrow>
             (case res of
                None \<Rightarrow> \<lparr>calls = issued, infos = [], outcome = Panicked NilPointerDereference\<rparr>
              | Some r \<Rightarrow>
                  \<lparr>calls = issued, infos = [],
                   outcome = Returned
                     [AddError ''Client Error''
                        (''Unable to update issue type, got error: '' @ err @ newline @ Bytes r)]
                     None\<rparr>)
         | (returnedProject, res, None) \<Rightarrow>
             (case returnedProject of
                None \<Rightarrow> \<lparr>calls = issued, infos = [], outcome = Panicked NilPointerDereference\<rparr>
              | Some updated \<Rightarrow>
                  (let schemeID = Int64_String (jiraProjectResourceModel.IssueTypeScheme plan);
                       issued2 =
                         issued @ [Call_Issue_Type_Scheme_Assign schemeID (ProjectScheme.ID updated)]
                   in case Issue_Type_Scheme_Assign jira schemeID (ProjectScheme.ID updated) of
                        (response, Some err2) \<Rightarrow>
                          (case response of
                             None \<Rightarrow>
                               \<lparr>calls = issued2, infos = [],
                                outcome = Panicked NilPointerDereference\<rparr>
                           | Some r2 \<Rightarrow>
                               \<lparr>calls = issued2, infos = [],
                                outcome = Returned
                                  [AddError ''Client Error''
                                     (''Unable to assign issue type scheme to project, got error: ''
                                        @ err2 @ newline @ Bytes r2)]
                                  None\<rparr>)
                      | (response, None) \<Rightarrow>
                          (case avatarID_of url_Parse (AvatarUrls updated) of
                             Inl p \<Rightarrow> \<lparr>calls = issued2, infos = [], outcome = Panicked p\<rparr>
                           | Inr avatarID \<Rightarrow>
                               (case Lead updated of
                                  None \<Rightarrow>
                                    \<lparr>calls = issued2, infos = [],
                                     outcome = Panicked NilPointerDereference\<rparr>
                                | Some lead \<Rightarrow>
                                    \<lparr>calls = issued2, infos = [],
                                     outcome = Returned []
                                       (Some (Update_result updated avatarID lead plan))\<rparr>)))))"

section \<open>The data sources\<close>

text \<open>The attribute error that the three data sources add for an unusable \<^verbatim>\<open>id\<close>.\<close>

definition id_attribute_error :: diagnostic where
  \<open>id_attribute_error =
     AddAttributeError ''id''
       ''Unable to parse value of "id" attribute.''
       ''Value of "id" attribute can only be a numeric string.''\<close>

subsection \<open>Status\<close>

record jiraStatusDataSourceModel =
  ID :: types_String
  Name :: types_String
  Description :: types_String
  Category :: types_String

definition jiraStatusDataSource_Read ::
  "jiraClient \<Rightarrow> jiraStatusDataSourceModel \<Rightarrow> jiraStatusDataSourceModel run" where
  "jiraStatusDataSource_Read jira newState =
     (let statusId = ValueString (jiraStatusDataSourceModel.ID newState)
      in if statusId = []
         then \<lparr>calls = [], infos = [], outcome = Returned [id_attribute_error] None\<rparr>
         else
           (let issued = [Call_Workflow_Status_Gets [statusId] []]
            in case Workflow_Status_Gets jira [statusId] [] of
                 (status, res, Some err) \<Rightarrow>
                   (let resBody = (case res of None \<Rightarrow> [] | Some r \<Rightarrow> Bytes r)
                    in \<lparr>calls = issued, infos = [],
                        outcome = Returned
                          [AddError ''Client Error''
                             (''Unable to get Jira status, got error: '' @ err @ newline @ resBody)]
                          None\<rparr>)
               | (status, res, None) \<Rightarrow>
                   (case index status 0 of
                      Inl p \<Rightarrow> \<lparr>calls = issued, infos = [], outcome = Panicked p\<rparr>
                    | Inr None \<Rightarrow>
                        \<lparr>calls = issued, infos = [], outcome = Panicked NilPointerDereference\<rparr>
                    | Inr (Some first) \<Rightarrow>
                        \<lparr>calls = issued, infos = [],
                         outcome = Returned []
                           (Some (newState
                              \<lparr>jiraStatusDataSourceModel.Name :=
                                 StringValue (WorkflowStatusDetailScheme.Name first),
                               jiraStatusDataSourceModel.Description :=
                                 StringValue (WorkflowStatusDetailScheme.Description first),
                               Category := StringValue (StatusCategory first)\<rparr>))\<rparr>)))"

subsection \<open>Issue screen\<close>

record jiraIssueScreenDataSourceModel =
  ID :: types_String
  Name :: types_String
  Description :: types_String

definition jiraIssueScreenDataSource_Read ::
  "jiraClient \<Rightarrow> jiraIssueScreenDataSourceModel \<Rightarrow> jiraIssueScreenDataSourceModel run" where
  "jiraIssueScreenDataSource_Read jira newState =
     (case Atoi (ValueString (jiraIssueScreenDataSourceModel.ID newState)) of
        (issueScreenId, Some err) \<Rightarrow>
          \<lparr>calls = [], infos = [], outcome = Returned [id_attribute_error] None\<rparr>
      | (issueScreenId, None) \<Rightarrow>
          (let screenParamsScheme = \<lparr>IDs = [issueScreenId]\<rparr>;
               issued = [Call_Screen_Gets screenParamsScheme 0 50]
           in case Screen_Gets jira screenParamsScheme 0 50 of
                (issueScreen, res, Some err) \<Rightarrow>
                  (let resBody = (case res of None \<Rightarrow> [] | Some r \<Rightarrow> Bytes r)
                   in \<lparr>calls = issued, infos = [],
                       outcome = Returned
                         [AddError ''Client Error''
                            (''Unable to get issue screen, got error: '' @ err @ newline @ resBody)]
                         None\<rparr>)
              | (issueScreen, res, None) \<Rightarrow>
                  (case issueScreen of
                     None \<Rightarrow>
                       \<lparr>calls = issued, infos = [], outcome = Panicked NilPointerDereference\<rparr>
                   | Some page \<Rightarrow>
                       (case index (ScreenSearchPageScheme.Values page) 0 of
                          Inl p \<Rightarrow> \<lparr>calls = issued, infos = [], outcome = Panicked p\<rparr>
                        | Inr None \<Rightarrow>
                            \<lparr>calls = issued, infos = [],
                             outcome = Panicked NilPointerDereference\<rparr>
                        | Inr (Some first) \<Rightarrow>
                            \<lparr>calls = issued, infos = [],
                             outcome = Returned []
                               (Some (newState
                                  \<lparr>jiraIssueScreenDataSourceModel.Name :=
                                     StringValue (ScreenScheme.Name first),
                                   jiraIssueScreenDataSourceModel.Description :=
                                     StringValue (ScreenScheme.Description first)\<rparr>))\<rparr>))))"

subsection \<open>Workflow scheme\<close>

record jiraWorkflowSchemeDataSourceModel =
  ID :: types_String
  Name :: types_String
  Description :: types_String

definition jiraWorkflowSchemeDataSource_Read ::
  "jiraClient \<Rightarrow> jiraWorkflowSchemeDataSourceModel \<Rightarrow> jiraWorkflowSchemeDataSourceModel run"
  where
  "jiraWorkflowSchemeDataSource_Read jira newState =
     (case Atoi (ValueString (jiraWorkflowSchemeDataSourceModel.ID newState)) of
        (workflowSchemeId, Some err) \<Rightarrow>
          \<lparr>calls = [], infos = [], outcome = Returned [id_attribute_error] None\<rparr>
      | (workflowSchemeId, None) \<Rightarrow>
          (let issued = [Call_Workflow_Scheme_Get workflowSchemeId False]
           in case Workflow_Scheme_Get jira workflowSchemeId False of
                (workflowScheme, res, Some err) \<Rightarrow>
                  (let resBody = (case res of None \<Rightarrow> [] | Some r \<Rightarrow> Bytes r)
                   in \<lparr>calls = issued, infos = [],
                       outcome = Returned
                         [AddError ''Client Error''
                            (''Unable to get Jira workflow scheme, got error: ''
                               @ err @ newline @ resBody)]
                         None\<rparr>)
              | (workflowScheme, res, None) \<Rightarrow>
                  (case workflowScheme of
                     None \<Rightarrow>
                       \<lparr>calls = issued, infos = [], outcome = Panicked NilPointerDereference\<rparr>
                   | Some scheme \<Rightarrow>
                       \<lparr>calls = issued, infos = [],
                        outcome = Returned []
                          (Some (newState
                             \<lparr>jiraWorkflowSchemeDataSourceModel.Name :=
                                StringValue (WorkflowSchemeScheme.Name scheme),
                              jiraWorkflowSchemeDataSourceModel.Description :=
                                StringValue (WorkflowSchemeScheme.Description scheme)\<rparr>))\<rparr>)))"

section \<open>Example remote systems and records\<close>

text \<open>
  Two remote systems for the examples below. \<open>offline\<close> cannot be reached: every call fails
  in transport, so the client returns no payload, no response and an error. \<open>online\<close> holds
  one project, with id 10001, whose issue type scheme is the scheme 10000, and answers every
  call successfully; its association lookup returns at most \<open>maxResults\<close> associations.
  \<open>url_Parse_avatar\<close> is \<^verbatim>\<open>url.Parse\<close> at the avatar URL of that project.
  \<open>test_plan\<close> is the configuration of the project before it is created, \<open>test_state\<close> the
  state stored for it afterwards. \<open>changed_plan\<close> asks for the issue type scheme 10000;
  \<open>prior_state\<close> is a state of the same project with all four scheme fields set.
  \<open>empty_pages\<close> answers the status and screen lookups with an empty collection;
  \<open>status_config\<close> and \<open>screen_config\<close> are configurations of the two data sources.
\<close>

definition ok :: "ResponseScheme option" where
  "ok = Some \<lparr>Bytes = []\<rparr>"

definition offline :: jiraClient where
  "offline =
     \<lparr>Project_Create = (\<lambda>payload. (None, None, Some ''connection refused'')),
      Project_Get = (\<lambda>projectID expand. (None, None, Some ''connection refused'')),
      Project_Update = (\<lambda>projectID payload. (None, None, Some ''connection refused'')),
      Project_Delete = (\<lambda>projectID enableUndo. (None, Some ''connection refused'')),
      Issue_Type_Scheme_Projects =
        (\<lambda>ids startAt maxResults. (None, None, Some ''connection refused'')),
      Issue_Type_Scheme_Assign = (\<lambda>schemeID projectID. (None, Some ''connection refused'')),
      Workflow_Status_Gets = (\<lambda>ids expand. ([], None, Some ''connection refused'')),
      Workflow_Scheme_Get = (\<lambda>schemeID returnDraft. (None, None, Some ''connection refused'')),
      Screen_Gets = (\<lambda>params startAt maxResults. (None, None, Some ''connection refused''))\<rparr>"

definition avatar_url :: string where
  "avatar_url =
     ''https://example.atlassian.net/rest/api/3/universal_avatar/view/type/project/avatar/10324?size=xsmall''"

definition url_Parse_avatar :: "string \<Rightarrow> URL option" where
  "url_Parse_avatar rawURL =
     (if rawURL = avatar_url
      then Some \<lparr>Path = ''/rest/api/3/universal_avatar/view/type/project/avatar/10324''\<rparr>
      else None)"

definition test_project :: ProjectScheme where
  "test_project =
     \<lparr>ProjectScheme.ID = ''10001'',
      ProjectScheme.Key = ''TES'',
      ProjectScheme.Name = ''Test Project'',
      ProjectScheme.Description = [],
      AvatarUrls = Some \<lparr>One6X16 = avatar_url\<rparr>,
      Lead = Some \<lparr>AccountID = ''5b10a2844c20165700ede21g''\<rparr>,
      ProjectScheme.ProjectTypeKey = ''software'',
      ProjectScheme.URL = []\<rparr>"

definition test_association :: IssueTypeSchemeProjectsScheme where
  "test_association =
     \<lparr>IssueTypeSchemeProjectsScheme.IssueTypeScheme =
        Some \<lparr>IssueTypeSchemeScheme.ID = ''10000'',
              IssueTypeSchemeScheme.Name = ''Default Issue Type Scheme''\<rparr>,
      ProjectIds = [''10001'']\<rparr>"

definition online :: jiraClient where
  "online =
     \<lparr>Project_Create =
        (\<lambda>payload. (Some \<lparr>NewProjectCreatedScheme.ID = 10001\<rparr>, ok, None)),
      Project_Get = (\<lambda>projectID expand. (Some test_project, ok, None)),
      Project_Update = (\<lambda>projectID payload. (Some test_project, ok, None)),
      Project_Delete = (\<lambda>projectID enableUndo. (ok, None)),
      Issue_Type_Scheme_Projects =
        (\<lambda>ids startAt maxResults.
           (Some \<lparr>IssueTypeSchemeProjectPageScheme.Values =
                    take (nat maxResults) [Some test_association]\<rparr>, ok, None)),
      Issue_Type_Scheme_Assign = (\<lambda>schemeID projectID. (ok, None)),
      Workflow_Status_Gets =
        (\<lambda>ids expand.
           ([Some \<lparr>WorkflowStatusDetailScheme.Name = ''To Do'',
                   WorkflowStatusDetailScheme.Description = [],
                   StatusCategory = ''TODO''\<rparr>], ok, None)),
      Workflow_Scheme_Get =
        (\<lambda>schemeID returnDraft.
           (Some \<lparr>WorkflowSchemeScheme.Name = ''Default Workflow Scheme'',
                  WorkflowSchemeScheme.Description = []\<rparr>, ok, None)),
      Screen_Gets =
        (\<lambda>params startAt maxResults.
           (Some \<lparr>ScreenSearchPageScheme.Values =
                    [Some \<lparr>ScreenScheme.Name = ''Default Screen'',
                           ScreenScheme.Description = []\<rparr>]\<rparr>, ok, None))\<rparr>"

definition test_plan :: jiraProjectResourceModel where
  "test_plan =
     \<lparr>jiraProjectResourceModel.ID = StringUnknown,
      jiraProjectResourceModel.Key = StringValue ''TES'',
      jiraProjectResourceModel.Name = StringValue ''Test Project'',
      jiraProjectResourceModel.Description = StringValue [],
      AvatarId = Int64Null,
      jiraProjectResourceModel.FieldConfigurationScheme = Int64Null,
      jiraProjectResourceModel.IssueTypeScheme = Int64Null,
      jiraProjectResourceModel.IssueTypeScreenScheme = Int64Null,
      jiraProjectResourceModel.WorkflowScheme = Int64Null,
      LeadAccountId = StringUnknown,
      jiraProjectResourceModel.ProjectTypeKey = StringValue ''software'',
      jiraProjectResourceModel.URL = StringValue []\<rparr>"

definition test_state :: jiraProjectResourceModel where
  "test_state =
     \<lparr>jiraProjectResourceModel.ID = StringValue ''10001'',
      jiraProjectResourceModel.Key = StringValue ''TES'',
      jiraProjectResourceModel.Name = StringValue ''Test Project'',
      jiraProjectResourceModel.Description = StringValue [],
      AvatarId = Int64Value 10324,
      jiraProjectResourceModel.FieldConfigurationScheme = Int64Null,
      jiraProjectResourceModel.IssueTypeScheme = Int64Null,
      jiraProjectResourceModel.IssueTypeScreenScheme = Int64Null,
      jiraProjectResourceModel.WorkflowScheme = Int64Null,
      LeadAccountId = StringValue ''5b10a2844c20165700ede21g'',
      jiraProjectResourceModel.ProjectTypeKey = StringValue ''software'',
      jiraProjectResourceModel.URL = StringValue []\<rparr>"



definition empty_pages :: jiraClient where
  "empty_pages =
     online\<lparr>Workflow_Status_Gets := \<lambda>ids expand. ([], ok, None),
            Screen_Gets := \<lambda>params startAt maxResults.
              (Some \<lparr>ScreenSearchPageScheme.Values = []\<rparr>, ok, None)\<rparr>"

definition status_config :: jiraStatusDataSourceModel where
  "status_config =
     \<lparr>jiraStatusDataSourceModel.ID = StringValue ''10000'',
      jiraStatusDataSourceModel.Name = StringNull,
      jiraStatusDataSourceModel.Description = StringNull,
      Category = StringNull\<rparr>"

definition screen_config :: jiraIssueScreenDataSourceModel where
  "screen_config =
     \<lparr>jiraIssueScreenDataSourceModel.ID = StringValue ''10001'',
      jiraIssueScreenDataSourceModel.Name = StringNull,
      jiraIssueScreenDataSourceModel.Description = StringNull\<rparr>"

section \<open>Evaluation of the library functions and of the examples\<close>

lemmas eval_Atoi = Atoi_def ParseUint_def isDigit_def maxUint64_def

lemmas eval_Itoa = Itoa_def digits.simps

lemma Atoi_10001: "Atoi ''10001'' = (10001, None)"
  by (simp add: eval_Atoi)

lemma avatarID_of_test_project:
  "avatarID_of url_Parse_avatar (AvatarUrls test_project) = Inr 10324"
  by (simp add: avatarID_of_def test_project_def url_Parse_avatar_def Split_def index_def eval_Atoi)

lemma Read_fields_test_state:
  "Read_fields url_Parse_avatar test_project test_state = Inr test_state"
  by (simp add: Read_fields_def avatarID_of_test_project)
     (simp add: test_project_def test_state_def)

lemma Read_online_test_state:
  "jiraProjectResource_Read online url_Parse_avatar test_state =
     \<lparr>calls = [Call_Project_Get ''10001'' [], Call_Issue_Type_Scheme_Projects [10001] 0 1],
      infos = [''Default Issue Type Scheme''],
      outcome = Returned [] (Some test_state)\<rparr>"
proof -
  have id: "ValueString (jiraProjectResourceModel.ID test_state) = ''10001''"
    by (simp add: test_state_def)
  show ?thesis
    by (simp add: jiraProjectResource_Read_def id online_def ok_def Read_fields_test_state
          Atoi_10001 test_association_def)
qed


section \<open>The loops of Read\<close>

text \<open>
  The inner loop sets the field exactly when the project id is an index of the membership
  list; the elements of the list play no part.
\<close>

lemma range_ProjectIds_index:
  "range_ProjectIds i ids projectIDInt scheme state =
     (if int i \<le> projectIDInt \<and> projectIDInt < int i + int (length ids)
      then state\<lparr>jiraProjectResourceModel.IssueTypeScheme :=
             Int64Value (fst (Atoi (IssueTypeSchemeScheme.ID scheme)))\<rparr>
      else state)"
  by (induction ids arbitrary: i) auto

lemma range_Values_logs: "length (fst (range_Values vs projectIDInt state)) \<le> length vs"
  by (induction vs arbitrary: state)
     (auto simp add: split_beta intro: le_SucI split: option.splits)

lemma range_Values_logged:
  "range_Values vs projectIDInt state = (logged, r) \<Longrightarrow> length logged \<le> length vs"
  using range_Values_logs [of vs projectIDInt state] by simp

lemma Read_calls:
  "calls (jiraProjectResource_Read jira url_Parse state) =
     [Call_Project_Get (ValueString (jiraProjectResourceModel.ID state)) []]
   \<or> calls (jiraProjectResource_Read jira url_Parse state) =
     [Call_Project_Get (ValueString (jiraProjectResourceModel.ID state)) [],
      Call_Issue_Type_Scheme_Projects
        [fst (Atoi (ValueString (jiraProjectResourceModel.ID state)))] 0 1]"
  by (simp add: jiraProjectResource_Read_def Let_def
      split: prod.splits option.splits sum.splits)

lemma Read_infos:
  "length (infos (jiraProjectResource_Read jira url_Parse state)) \<le>
     (case Issue_Type_Scheme_Projects jira
             [fst (Atoi (ValueString (jiraProjectResourceModel.ID state)))] 0 1 of
        (Some page, res, err) \<Rightarrow> length (IssueTypeSchemeProjectPageScheme.Values page)
      | (None, res, err) \<Rightarrow> 0)"
  by (auto simp add: jiraProjectResource_Read_def Let_def
      split: prod.splits option.splits sum.splits dest: range_Values_logged)

section \<open>The remote calls of Update\<close>

lemma Update_calls:
  "calls (jiraProjectResource_Update jira url_Parse plan state) =
     Call_Project_Update (ValueString (jiraProjectResourceModel.ID state)) (Update_payload plan) #
     (case Project_Update jira (ValueString (jiraProjectResourceModel.ID state))
             (Update_payload plan) of
        (Some updated, res, None) \<Rightarrow>
          [Call_Issue_Type_Scheme_Assign
             (Int64_String (jiraProjectResourceModel.IssueTypeScheme plan))
             (ProjectScheme.ID updated)]
      | _ \<Rightarrow> [])"
  by (simp add: jiraProjectResource_Update_def Let_def
      split: prod.splits option.splits sum.splits)

section \<open>The claims\<close>

text \<open>
  Claim C1. In project Read, the membership lists of the returned associations are scanned
  for the project's numeric id; when the id is in the list of some association,
  \<open>IssueTypeScheme\<close> of the state is set to that association's scheme id, and otherwise it
  keeps its prior value.

  The code does not do this: the inner loop compares the project id with the indices of the
  membership list, not with its elements. For the project 10001 the remote system returns
  the association of scheme 10000, whose membership list is \<open>[''10001'']\<close>; the only index
  is 0, so the field keeps its prior value, null, where the claim says 10000.
\<close>

theorem Read_compares_slice_index:
  "jiraProjectResource_Read online url_Parse_avatar test_state =
     \<lparr>calls = [Call_Project_Get ''10001'' [], Call_Issue_Type_Scheme_Projects [10001] 0 1],
      infos = [''Default Issue Type Scheme''],
      outcome = Returned [] (Some test_state)\<rparr>
   \<and> jiraProjectResourceModel.IssueTypeScheme test_state = Int64Null
   \<and> ''10001'' \<in> set (ProjectIds test_association)"
  by (simp add: Read_online_test_state) (simp add: test_state_def test_association_def)

text \<open>
  Claim C2. A Status or IssueScreen lookup whose remote call succeeds populates the name and
  description (and, for Status, the category) from the first element of the returned
  collection, whatever follows it; when the collection is empty the handler does not add a
  diagnostic but panics with an index out of range. (The elements are pointers: a nil first
  element is a nil pointer dereference.)
\<close>

theorem lookup_takes_first_element:
  "(ValueString (jiraStatusDataSourceModel.ID statusConfig) \<noteq> [] \<and>
    Workflow_Status_Gets jira [ValueString (jiraStatusDataSourceModel.ID statusConfig)] [] =
      (status, res, None) \<longrightarrow>
      outcome (jiraStatusDataSource_Read jira statusConfig) =
        (case status of
           [] \<Rightarrow> Panicked IndexOutOfRange
         | None # others \<Rightarrow> Panicked NilPointerDereference
         | Some first # others \<Rightarrow>
             Returned []
               (Some (statusConfig
                  \<lparr>jiraStatusDataSourceModel.Name :=
                     StringValue (WorkflowStatusDetailScheme.Name first),
                   jiraStatusDataSourceModel.Description :=
                     StringValue (WorkflowStatusDetailScheme.Description first),
                   Category := StringValue (StatusCategory first)\<rparr>))))
   \<and> (Atoi (ValueString (jiraIssueScreenDataSourceModel.ID screenConfig)) = (issueScreenId, None) \<and>
      Screen_Gets jira \<lparr>IDs = [issueScreenId]\<rparr> 0 50 = (Some issueScreen, res', None) \<longrightarrow>
      outcome (jiraIssueScreenDataSource_Read jira screenConfig) =
        (case ScreenSearchPageScheme.Values issueScreen of
           [] \<Rightarrow> Panicked IndexOutOfRange
         | None # others \<Rightarrow> Panicked NilPointerDereference
         | Some first # others \<Rightarrow>
             Returned []
               (Some (screenConfig
                  \<lparr>jiraIssueScreenDataSourceModel.Name := StringValue (ScreenScheme.Name first),
                   jiraIssueScreenDataSourceModel.Description :=
                     StringValue (ScreenScheme.Description first)\<rparr>))))"
  by (auto simp add: jiraStatusDataSource_Read_def jiraIssueScreenDataSource_Read_def
        Let_def index_def split: list.splits option.splits)

text \<open>
  Both lookups against \<open>empty_pages\<close>, where they panic, and against \<open>online\<close>, where they
  store the status To Do and the screen Default Screen.
\<close>

theorem lookup_takes_first_element_witness:
  "outcome (jiraStatusDataSource_Read empty_pages status_config) = Panicked IndexOutOfRange
   \<and> outcome (jiraStatusDataSource_Read online status_config) =
      Returned []
        (Some \<lparr>jiraStatusDataSourceModel.ID = StringValue ''10000'',
               jiraStatusDataSourceModel.Name = StringValue ''To Do'',
               jiraStatusDataSourceModel.Description = StringValue [],
               Category = StringValue ''TODO''\<rparr>)
   \<and> outcome (jiraIssueScreenDataSource_Read empty_pages screen_config) =
      Panicked IndexOutOfRange
   \<and> outcome (jiraIssueScreenDataSource_Read online screen_config) =
      Returned []
        (Some \<lparr>jiraIssueScreenDataSourceModel.ID = StringValue ''10001'',
               jiraIssueScreenDataSourceModel.Name = StringValue ''Default Screen'',
               jiraIssueScreenDataSourceModel.Description = StringValue []\<rparr>)"
proof -
  have id: "Atoi (ValueString (jiraIssueScreenDataSourceModel.ID screen_config)) = (10001, None)"
    by (simp add: screen_config_def Atoi_10001)
  have status_id: "ValueString (jiraStatusDataSourceModel.ID status_config) = ''10000''"
    by (simp add: status_config_def)
  have empty:
    "outcome (jiraStatusDataSource_Read empty_pages status_config) = Panicked IndexOutOfRange
     \<and> outcome (jiraIssueScreenDataSource_Read empty_pages screen_config) =
         Panicked IndexOutOfRange"
    using id status_id
      lookup_takes_first_element
        [of status_config empty_pages "[]" ok
            screen_config 10001 "\<lparr>ScreenSearchPageScheme.Values = []\<rparr>" ok]
    by (simp add: empty_pages_def)
  have one:
    "outcome (jiraStatusDataSource_Read online status_config) =
      Returned []
        (Some (status_config
           \<lparr>jiraStatusDataSourceModel.Name := StringValue ''To Do'',
            jiraStatusDataSourceModel.Description := StringValue [],
            Category := StringValue ''TODO''\<rparr>))
     \<and> outcome (jiraIssueScreenDataSource_Read online screen_config) =
      Returned []
        (Some (screen_config
           \<lparr>jiraIssueScreenDataSourceModel.Name := StringValue ''Default Screen'',
            jiraIssueScreenDataSourceModel.Description := StringValue []\<rparr>))"
    using id status_id
      lookup_takes_first_element
        [of status_config online
            "[Some \<lparr>WorkflowStatusDetailScheme.Name = ''To Do'',
                   WorkflowStatusDetailScheme.Description = [],
                   StatusCategory = ''TODO''\<rparr>]" ok
            screen_config 10001
            "\<lparr>ScreenSearchPageScheme.Values =
                    [Some \<lparr>ScreenScheme.Name = ''Default Screen'',
                           ScreenScheme.Description = []\<rparr>]\<rparr>" ok]
    by (simp add: online_def)
  show ?thesis
    using empty one by (simp add: status_config_def screen_config_def)
qed

text \<open>
  Claim C3. In every project lifecycle operation, a remote call that returns an error aborts
  the operation with a diagnostic that carries the error message, and the raw response body
  when there is a response; the error path is well-defined also when no response comes with
  the error.

  Create does this. Read, Update and Delete read the body of the response without checking
  that there is one: against a remote system that cannot be reached they panic with a nil
  pointer dereference, where Create adds its diagnostic.
\<close>

theorem error_without_response_panics:
  "outcome (jiraProjectResource_Read offline url_Parse_avatar test_state) =
     Panicked NilPointerDereference
   \<and> outcome (jiraProjectResource_Update offline url_Parse_avatar test_plan test_state) =
     Panicked NilPointerDereference
   \<and> outcome (jiraProjectResource_Delete offline test_state) = Panicked NilPointerDereference
   \<and> outcome (jiraProjectResource_Create offline test_plan) =
     Returned
       [AddError ''Client Error''
          (''Unable to create project, got error: connection refused'' @ newline)]
       None"
  by (simp add: jiraProjectResource_Read_def jiraProjectResource_Update_def
        jiraProjectResource_Delete_def jiraProjectResource_Create_def offline_def)

text \<open>
  Claim C4. In every Update, the project update call is keyed by the id of the prior state,
  never by the id of the plan: the first call issued is the update call with the state's
  id, no later call is an update call, and the id of the plan has no influence on the run.
\<close>

theorem Update_keyed_by_state_id:
  "take 1 (calls (jiraProjectResource_Update jira url_Parse plan state)) =
     [Call_Project_Update (ValueString (jiraProjectResourceModel.ID state)) (Update_payload plan)]
   \<and> (\<forall>key payload. Call_Project_Update key payload \<notin>
         set (drop 1 (calls (jiraProjectResource_Update jira url_Parse plan state))))
   \<and> jiraProjectResource_Update jira url_Parse
        (plan\<lparr>jiraProjectResourceModel.ID := planID\<rparr>) state =
     jiraProjectResource_Update jira url_Parse plan state"
proof (intro conjI)
  show "take 1 (calls (jiraProjectResource_Update jira url_Parse plan state)) =
     [Call_Project_Update (ValueString (jiraProjectResourceModel.ID state)) (Update_payload plan)]"
    by (simp add: Update_calls)
  show "\<forall>key payload. Call_Project_Update key payload \<notin>
         set (drop 1 (calls (jiraProjectResource_Update jira url_Parse plan state)))"
    by (simp add: Update_calls split: prod.splits option.splits)
  have "Update_payload (plan\<lparr>jiraProjectResourceModel.ID := planID\<rparr>) = Update_payload plan"
    by (simp add: Update_payload_def)
  moreover have "Update_result u a l (plan\<lparr>jiraProjectResourceModel.ID := planID\<rparr>) =
                 Update_result u a l plan" for u a l
    by (simp add: Update_result_def)
  ultimately show "jiraProjectResource_Update jira url_Parse
        (plan\<lparr>jiraProjectResourceModel.ID := planID\<rparr>) state =
     jiraProjectResource_Update jira url_Parse plan state"
    by (simp add: jiraProjectResource_Update_def Let_def
        cong: prod.case_cong option.case_cong sum.case_cong)
qed

text \<open>An Update whose plan carries the id 999 while the state carries 10001.\<close>

theorem Update_keyed_by_state_id_witness:
  "calls (jiraProjectResource_Update online url_Parse_avatar
            (test_plan\<lparr>jiraProjectResourceModel.ID := StringValue ''999''\<rparr>) test_state) =
     [Call_Project_Update ''10001'' (Update_payload test_plan),
      Call_Issue_Type_Scheme_Assign ''<null>'' ''10001'']"
proof -
  have "jiraProjectResource_Update online url_Parse_avatar
          (test_plan\<lparr>jiraProjectResourceModel.ID := StringValue ''999''\<rparr>) test_state =
        jiraProjectResource_Update online url_Parse_avatar test_plan test_state"
    using Update_keyed_by_state_id
      [of online url_Parse_avatar test_plan test_state "StringValue ''999''"]
    by simp
  then show ?thesis
    by (simp add: Update_calls) (simp add: online_def test_state_def test_plan_def test_project_def)
qed

text \<open>
  Claim C5. In every Update whose update call succeeds, the call that assigns the issue type
  scheme is issued next and without any guard, for the plan's \<open>IssueTypeScheme\<close> (in the
  rendering of the framework) and the id of the returned project, also when the field is
  unset or zero.
\<close>

theorem Update_assigns_unconditionally:
  "Project_Update jira (ValueString (jiraProjectResourceModel.ID state)) (Update_payload plan) =
     (Some updated, res, None) \<Longrightarrow>
   calls (jiraProjectResource_Update jira url_Parse plan state) =
     [Call_Project_Update (ValueString (jiraProjectResourceModel.ID state)) (Update_payload plan),
      Call_Issue_Type_Scheme_Assign
        (Int64_String (jiraProjectResourceModel.IssueTypeScheme plan)) (ProjectScheme.ID updated)]"
  by (simp add: Update_calls)

text \<open>An Update with the field unset, and one with the field zero.\<close>

theorem Update_assigns_unconditionally_witness:
  "Project_Update online (ValueString (jiraProjectResourceModel.ID test_state))
     (Update_payload test_plan) = (Some test_project, ok, None)
   \<and> calls (jiraProjectResource_Update online url_Parse_avatar test_plan test_state) =
       [Call_Project_Update ''10001'' (Update_payload test_plan),
        Call_Issue_Type_Scheme_Assign ''<null>'' ''10001'']
   \<and> calls (jiraProjectResource_Update online url_Parse_avatar
              (test_plan\<lparr>jiraProjectResourceModel.IssueTypeScheme := Int64Value 0\<rparr>) test_state) =
       [Call_Project_Update ''10001''
          (Update_payload (test_plan\<lparr>jiraProjectResourceModel.IssueTypeScheme := Int64Value 0\<rparr>)),
        Call_Issue_Type_Scheme_Assign ''0'' ''10001'']"
proof -
  have unset: "Project_Update online (ValueString (jiraProjectResourceModel.ID test_state))
     (Update_payload test_plan) = (Some test_project, ok, None)"
    by (simp add: online_def)
  have zero: "Project_Update online (ValueString (jiraProjectResourceModel.ID test_state))
     (Update_payload (test_plan\<lparr>jiraProjectResourceModel.IssueTypeScheme := Int64Value 0\<rparr>)) =
       (Some test_project, ok, None)"
    by (simp add: online_def)
  show ?thesis
    using unset Update_assigns_unconditionally [OF unset, of url_Parse_avatar]
      Update_assigns_unconditionally [OF zero, of url_Parse_avatar]
    by (simp add: test_state_def test_plan_def test_project_def eval_Itoa)
qed



text \<open>
  Claim C7. A WorkflowScheme or IssueScreen lookup whose id does not parse as an integer
  aborts with a validation error on the attribute \<open>id\<close> and issues no remote call.
\<close>

theorem lookup_rejects_non_numeric_id:
  \<open>(snd (Atoi (ValueString (jiraWorkflowSchemeDataSourceModel.ID workflowConfig))) \<noteq> None \<longrightarrow>
      jiraWorkflowSchemeDataSource_Read jira workflowConfig =
        \<lparr>calls = [], infos = [],
         outcome = Returned
           [AddAttributeError ''id'' ''Unable to parse value of "id" attribute.''
              ''Value of "id" attribute can only be a numeric string.'']
           None\<rparr>)
   \<and> (snd (Atoi (ValueString (jiraIssueScreenDataSourceModel.ID screenConfig))) \<noteq> None \<longrightarrow>
      jiraIssueScreenDataSource_Read jira screenConfig =
        \<lparr>calls = [], infos = [],
         outcome = Returned
           [AddAttributeError ''id'' ''Unable to parse value of "id" attribute.''
              ''Value of "id" attribute can only be a numeric string.'']
           None\<rparr>)\<close>
  by (auto simp add: jiraWorkflowSchemeDataSource_Read_def jiraIssueScreenDataSource_Read_def
      id_attribute_error_def split: prod.splits option.splits)

text \<open>The ids \<open>abc\<close> and \<open>12x\<close>, looked up in a remote system that would answer.\<close>

theorem lookup_rejects_non_numeric_id_witness:
  \<open>snd (Atoi (ValueString (jiraWorkflowSchemeDataSourceModel.ID
      \<lparr>jiraWorkflowSchemeDataSourceModel.ID = StringValue ''abc'',
       jiraWorkflowSchemeDataSourceModel.Name = StringNull,
       jiraWorkflowSchemeDataSourceModel.Description = StringNull\<rparr>))) \<noteq> None
   \<and> calls (jiraWorkflowSchemeDataSource_Read online
      \<lparr>jiraWorkflowSchemeDataSourceModel.ID = StringValue ''abc'',
       jiraWorkflowSchemeDataSourceModel.Name = StringNull,
       jiraWorkflowSchemeDataSourceModel.Description = StringNull\<rparr>) = []
   \<and> snd (Atoi (ValueString (jiraIssueScreenDataSourceModel.ID
      \<lparr>jiraIssueScreenDataSourceModel.ID = StringValue ''12x'',
       jiraIssueScreenDataSourceModel.Name = StringNull,
       jiraIssueScreenDataSourceModel.Description = StringNull\<rparr>))) \<noteq> None
   \<and> calls (jiraIssueScreenDataSource_Read online
      \<lparr>jiraIssueScreenDataSourceModel.ID = StringValue ''12x'',
       jiraIssueScreenDataSourceModel.Name = StringNull,
       jiraIssueScreenDataSourceModel.Description = StringNull\<rparr>) = []\<close>
proof -
  let ?w = "\<lparr>jiraWorkflowSchemeDataSourceModel.ID = StringValue ''abc'',
       jiraWorkflowSchemeDataSourceModel.Name = StringNull,
       jiraWorkflowSchemeDataSourceModel.Description = StringNull\<rparr>"
  let ?s = "\<lparr>jiraIssueScreenDataSourceModel.ID = StringValue ''12x'',
       jiraIssueScreenDataSourceModel.Name = StringNull,
       jiraIssueScreenDataSourceModel.Description = StringNull\<rparr>"
  have w: "snd (Atoi (ValueString (jiraWorkflowSchemeDataSourceModel.ID ?w))) \<noteq> None"
    by (simp add: eval_Atoi)
  have s: "snd (Atoi (ValueString (jiraIssueScreenDataSourceModel.ID ?s))) \<noteq> None"
    by (simp add: eval_Atoi)
  show ?thesis
    using w s lookup_rejects_non_numeric_id [of ?w online ?s]
    by simp
qed

text \<open>
  Claim C8. After a successful Create the stored state is the submitted plan with one field
  changed: \<open>ID\<close> is the decimal rendering of the numeric id that the remote system assigned.
  Every other field is the plan's, not re-read from the response.
\<close>

theorem Create_stores_plan_with_id:
  "Project_Create jira (Create_payload plan) = (Some created, res, None) \<Longrightarrow>
   jiraProjectResource_Create jira plan =
     \<lparr>calls = [Call_Project_Create (Create_payload plan)], infos = [],
      outcome = Returned []
        (Some (plan\<lparr>jiraProjectResourceModel.ID :=
                 StringValue (Itoa (NewProjectCreatedScheme.ID created))\<rparr>))\<rparr>"
  by (simp add: jiraProjectResource_Create_def Let_def)

text \<open>The project TES of the plan, created with the id 10001.\<close>

theorem Create_stores_plan_with_id_witness:
  "Project_Create online (Create_payload test_plan) =
     (Some \<lparr>NewProjectCreatedScheme.ID = 10001\<rparr>, ok, None)
   \<and> outcome (jiraProjectResource_Create online test_plan) =
       Returned [] (Some (test_plan\<lparr>jiraProjectResourceModel.ID := StringValue ''10001''\<rparr>))
   \<and> jiraProjectResourceModel.Key
       (test_plan\<lparr>jiraProjectResourceModel.ID := StringValue ''10001''\<rparr>) = StringValue ''TES''"
proof -
  have created: "Project_Create online (Create_payload test_plan) =
     (Some \<lparr>NewProjectCreatedScheme.ID = 10001\<rparr>, ok, None)"
    by (simp add: online_def)
  show ?thesis
    using created Create_stores_plan_with_id [OF created]
    by (simp add: eval_Itoa test_plan_def)
qed

text \<open>
  Claim C9. Every Delete issues exactly one remote call: the delete call keyed by the
  state's id, with the flag fixed to false. When that call succeeds the operation returns
  with no diagnostic, having issued no other call.
\<close>

theorem Delete_issues_one_call:
  "calls (jiraProjectResource_Delete jira state) =
     [Call_Project_Delete (ValueString (jiraProjectResourceModel.ID state)) False]
   \<and> (snd (Project_Delete jira (ValueString (jiraProjectResourceModel.ID state)) False) = None
        \<longrightarrow> outcome (jiraProjectResource_Delete jira state) = Returned [] None)"
  by (simp add: jiraProjectResource_Delete_def Let_def split: prod.splits option.splits)

text \<open>The Delete of the project with id 10001.\<close>

theorem Delete_issues_one_call_witness:
  "snd (Project_Delete online (ValueString (jiraProjectResourceModel.ID test_state)) False) = None
   \<and> calls (jiraProjectResource_Delete online test_state) = [Call_Project_Delete ''10001'' False]
   \<and> outcome (jiraProjectResource_Delete online test_state) = Returned [] None"
proof -
  have deleted:
    "snd (Project_Delete online (ValueString (jiraProjectResourceModel.ID test_state)) False) = None"
    by (simp add: online_def)
  show ?thesis
    using deleted Delete_issues_one_call [of online test_state]
    by (simp add: test_state_def)
qed

text \<open>
  Claim C10. Every project Read issues the association lookup with start 0 and page length 1,
  for the numeric id of the project, so at most one association is returned and scanned,
  however many the remote system holds. That the page holds no more associations than asked
  for is the remote system's side of the paging, and is the hypothesis; the associations
  scanned are counted by the messages logged, one per association.
\<close>

theorem Read_looks_up_one_association:
  assumes "\<And>ids startAt maxResults page res err.
             0 \<le> maxResults \<Longrightarrow>
             Issue_Type_Scheme_Projects jira ids startAt maxResults = (Some page, res, err) \<Longrightarrow>
             int (length (IssueTypeSchemeProjectPageScheme.Values page)) \<le> maxResults"
  shows "(\<forall>ids startAt maxResults.
            Call_Issue_Type_Scheme_Projects ids startAt maxResults
              \<in> set (calls (jiraProjectResource_Read jira url_Parse state)) \<longrightarrow>
            ids = [fst (Atoi (ValueString (jiraProjectResourceModel.ID state)))]
            \<and> startAt = 0 \<and> maxResults = 1)
         \<and> length (infos (jiraProjectResource_Read jira url_Parse state)) \<le> 1"
proof
  show "\<forall>ids startAt maxResults.
            Call_Issue_Type_Scheme_Projects ids startAt maxResults
              \<in> set (calls (jiraProjectResource_Read jira url_Parse state)) \<longrightarrow>
            ids = [fst (Atoi (ValueString (jiraProjectResourceModel.ID state)))]
            \<and> startAt = 0 \<and> maxResults = 1"
    using Read_calls [of jira url_Parse state] by auto
next
  let ?lookup = "Issue_Type_Scheme_Projects jira
                   [fst (Atoi (ValueString (jiraProjectResourceModel.ID state)))] 0 1"
  obtain found res err where lookup: "?lookup = (found, res, err)"
    by (cases ?lookup) auto
  show "length (infos (jiraProjectResource_Read jira url_Parse state)) \<le> 1"
  proof (cases found)
    case None
    then show ?thesis
      using lookup Read_infos [of jira url_Parse state] by simp
  next
    case (Some page)
    have "int (length (IssueTypeSchemeProjectPageScheme.Values page)) \<le> 1"
    proof (rule assms)
      show "(0::int) \<le> 1" by simp
      show "?lookup = (Some page, res, err)" using lookup Some by simp
    qed
    then show ?thesis
      using lookup Some Read_infos [of jira url_Parse state] by simp
  qed
qed

text \<open>The Read of the project 10001 against \<open>online\<close>, which honours the page length.\<close>

theorem Read_looks_up_one_association_witness:
  "(\<forall>ids startAt maxResults.
      \<exists>page res.
        Issue_Type_Scheme_Projects online ids startAt maxResults = (Some page, res, None)
        \<and> int (length (IssueTypeSchemeProjectPageScheme.Values page)) \<le> max 0 maxResults)
   \<and> calls (jiraProjectResource_Read online url_Parse_avatar test_state) =
       [Call_Project_Get ''10001'' [], Call_Issue_Type_Scheme_Projects [10001] 0 1]
   \<and> length (infos (jiraProjectResource_Read online url_Parse_avatar test_state)) \<le> 1"
proof -
  have paged: "int (length (IssueTypeSchemeProjectPageScheme.Values page)) \<le> maxResults"
    if "0 \<le> maxResults"
      and "Issue_Type_Scheme_Projects online ids startAt maxResults = (Some page, res, err)"
    for ids startAt maxResults page res err
    using that by (auto simp add: online_def)
  have "length (infos (jiraProjectResource_Read online url_Parse_avatar test_state)) \<le> 1"
    using Read_looks_up_one_association [of online url_Parse_avatar test_state] paged
    by blast
  moreover have "\<exists>page res.
        Issue_Type_Scheme_Projects online ids startAt maxResults = (Some page, res, None)
        \<and> int (length (IssueTypeSchemeProjectPageScheme.Values page)) \<le> max 0 maxResults"
    for ids startAt maxResults
    by (auto simp add: online_def)
  ultimately show ?thesis
    by (simp add: Read_online_test_state)
qed

end
